theory Spec2Isabelle
  imports Main "HOL-Library.Sublist"
begin

section \<open>Python values, truthiness and formatting\<close>

text \<open>
  The optional arguments of \<open>_build_url\<close> are annotated \<open>str\<close>, \<open>int\<close> and \<open>bool\<close>
  and default to \<open>None\<close>. Python does not enforce the annotations, so every argument is
  modelled by one type of values that covers the annotated types and \<open>None\<close>.
\<close>

datatype pyval = PNone | PStr string | PInt int | PBool bool

text \<open>\<open>if v:\<close> -- Python's truth value of \<open>v\<close>.\<close>

fun truthy :: "pyval \<Rightarrow> bool" where
  "truthy PNone = False"
| "truthy (PStr s) = (s \<noteq> [])"
| "truthy (PInt i) = (i \<noteq> 0)"
| "truthy (PBool b) = b"

definition digit_char :: "nat \<Rightarrow> char" where
  "digit_char d = char_of (48 + d)"

fun str_nat :: "nat \<Rightarrow> string" where
  "str_nat n = (if n < 10 then [digit_char n] else str_nat (n div 10) @ [digit_char (n mod 10)])"

declare str_nat.simps [simp del]

definition str_int :: "int \<Rightarrow> string" where
  "str_int i = (if i < 0 then CHR ''-'' # str_nat (nat (- i)) else str_nat (nat i))"

text \<open>\<open>f'{v}'\<close> -- the text an f-string substitutes for \<open>v\<close>.\<close>

fun py_format :: "pyval \<Rightarrow> string" where
  "py_format PNone = ''None''"
| "py_format (PStr s) = s"
| "py_format (PInt i) = str_int i"
| "py_format (PBool b) = (if b then ''True'' else ''False'')"

section \<open>Errors\<close>

text \<open>
  Every exception the modelled code can raise. \<open>Exception\<close> and \<open>ValueError\<close> carry the
  message the source builds; \<open>UnpackError\<close> is the \<open>ValueError\<close> Python raises when a
  sequence of the wrong length is unpacked; \<open>HTTPError\<close> is the error of the HTTP
  library's \<open>raise_for_status\<close>; \<open>KeyError\<close> and \<open>AttributeError\<close> are failed
  lookups; \<open>LibraryError\<close> stands for any exception raised inside an external library
  call (transport, metadata client, parsers).
\<close>

datatype error =
    Exception string
  | ValueError string
  | UnpackError
  | HTTPError string
  | KeyError string
  | AttributeError string
  | LibraryError string

section \<open>Building the request URL\<close>

text \<open>\<open>s.split(".", 1)\<close>: at most one split, at the first \<open>'.'\<close>.\<close>

definition split_first :: "char \<Rightarrow> string \<Rightarrow> string list" where
  "split_first c s =
     (case dropWhile (\<lambda>x. x \<noteq> c) s of
        [] \<Rightarrow> [s]
      | _ # rest \<Rightarrow> [takeWhile (\<lambda>x. x \<noteq> c) s, rest])"

record url_params =
  start_date :: pyval
  end_date :: pyval
  detail :: pyval
  update_after :: pyval
  first_n_observations :: pyval
  last_n_observations :: pyval
  include_history :: pyval

text \<open>One line \<open>if v: req_url += f'&name={v}'\<close> of \<open>_build_url\<close>.\<close>

definition add_param :: "string \<Rightarrow> pyval \<Rightarrow> string \<Rightarrow> string" where
  "add_param name v req_url = (if truthy v then req_url @ name @ py_format v else req_url)"

text \<open>
  \<open>ECB_DATA_INFO._build_url\<close>. The first argument is \<open>self.api_endpoint\<close>. The tuple
  assignment \<open>data_flow, series_key_rest = series_key.split(".", 1)\<close> raises when the
  key has no \<open>'.'\<close>.
\<close>

definition build_url :: "string \<Rightarrow> string \<Rightarrow> url_params \<Rightarrow> error + string" where
  "build_url api_endpoint series_key p =
     (case split_first CHR ''.'' series_key of
        [data_flow, series_key_rest] \<Rightarrow>
          (let req_url = api_endpoint @ ''/service/data/'' @ data_flow @ ''/''
                           @ series_key_rest @ ''?format=csvdata'';
               req_url = add_param ''&startPeriod='' (start_date p) req_url;
               req_url = add_param ''&endPeriod='' (end_date p) req_url;
               req_url = add_param ''&detail='' (detail p) req_url;
               req_url = add_param ''&updatedAfter='' (update_after p) req_url;
               req_url = add_param ''&firstNObservations='' (first_n_observations p) req_url;
               req_url = add_param ''&lastNObservations='' (last_n_observations p) req_url;
               req_url = add_param ''&includeHistory='' (include_history p) req_url
           in Inr req_url)
      | _ \<Rightarrow> Inl UnpackError)"

definition no_params :: url_params where
  "no_params = \<lparr>start_date = PNone, end_date = PNone, detail = PNone, update_after = PNone,
     first_n_observations = PNone, last_n_observations = PNone, include_history = PNone\<rparr>"

section \<open>Effects: log entries and HTTP requests\<close>

text \<open>
  The code logs through \<open>logging\<close> and sends requests through \<open>requests.get\<close>. Both
  are recorded, in order, as events; a computation returns its result (an error or a
  value) together with the events it produced.
\<close>

datatype level = INFO | ERROR

datatype event =
    Log level string
  | HttpGet string "(string \<times> string) list"

text \<open>The events that are requests.\<close>

definition is_request :: "event \<Rightarrow> bool" where
  "is_request ev = (case ev of HttpGet u h \<Rightarrow> True | Log l m \<Rightarrow> False)"

type_synonym 'a io = "(error + 'a) \<times> event list"

definition io_return :: "'a \<Rightarrow> 'a io" where
  "io_return x = (Inr x, [])"

definition io_raise :: "error \<Rightarrow> 'a io" where
  "io_raise e = (Inl e, [])"

definition io_emit :: "event \<Rightarrow> unit io" where
  "io_emit ev = (Inr (), [ev])"

text \<open>Sequencing: an error stops the computation; the events so far are kept.\<close>

definition io_bind :: "'a io \<Rightarrow> ('a \<Rightarrow> 'b io) \<Rightarrow> 'b io" where
  "io_bind m f =
     (case m of
        (Inl e, evs) \<Rightarrow> (Inl e, evs)
      | (Inr x, evs) \<Rightarrow> (case f x of (r, evs') \<Rightarrow> (r, evs @ evs')))"

text \<open>A call into an external library: its failure, if any, is an exception of that library.\<close>

definition external :: "string + 'a \<Rightarrow> 'a io" where
  "external r = (case r of Inl m \<Rightarrow> io_raise (LibraryError m) | Inr x \<Rightarrow> io_return x)"

definition lift :: "error + 'a \<Rightarrow> 'a io" where
  "lift r = (r, [])"

section \<open>Responses and their validation\<close>

text \<open>
  A \<open>requests\<close> response as far as the code reads it. \<open>headers\<close> is the text that
  formatting the header dictionary gives, \<open>reason\<close> the reason phrase of the status
  line and \<open>body\<close> the decoded body (\<open>response.text\<close>, \<open>response.content.decode()\<close>).
\<close>

record http_response =
  status_code :: int
  url :: string
  headers :: string
  reason :: string
  body :: string

text \<open>
  The validator receives either a response of \<open>requests.get\<close> or the metadata client,
  which has a \<open>dataflow\<close> attribute; calling \<open>dataflow()\<close> on the client sends a request
  of its own, which fails or gives a message holding the response.
\<close>

datatype response = Raw http_response | Client "string + http_response"

text \<open>
  \<open>Response.raise_for_status\<close> of the \<open>requests\<close> library, which the validator
  delegates to: it raises \<open>HTTPError\<close> for the client errors 400..499 and the server
  errors 500..599, with a message built from the response's own code, reason phrase
  and URL, and does nothing for any other code.
\<close>

definition raise_for_status :: "http_response \<Rightarrow> unit io" where
  "raise_for_status r =
     (if 400 \<le> status_code r \<and> status_code r < 500
      then io_raise (HTTPError (str_int (status_code r) @ '' Client Error: '' @ reason r
                                 @ '' for url: '' @ url r))
      else if 500 \<le> status_code r \<and> status_code r < 600
      then io_raise (HTTPError (str_int (status_code r) @ '' Server Error: '' @ reason r
                                 @ '' for url: '' @ url r))
      else io_return ())"

text \<open>The dictionary \<open>errors_msgs\<close> of \<open>__connection_handler\<close>.\<close>

definition errors_msgs :: "(int \<times> string) list" where
  "errors_msgs =
     [(304, ''No changes. There have been no changes to the data since the timestamp ''
            @ ''supplied in the If-Modified-Since header.''),
      (400, ''Syntax error. Syntactic or semantic issue with the parameters supplied.''),
      (404, ''No results found. There are no results matching the query.''),
      (406, ''Not Acceptable.''),
      (500, ''Internal Server Error. Feel free to try again later or to contact the ''
            @ ''support hotline https://ecb-registration.escb.eu/statistical-information.''),
      (501, ''Not implemented.''),
      (503, ''Service unavailable: Web service is temporarily unavailable.'')]"

text \<open>
  The dictionary \<open>ERROR_CODES_DICT\<close> of \<open>config.py\<close> (code and \<open>"message"\<close>; every
  \<open>"return_"\<close> is \<open>None\<close>). The message of 401 ends in the character U+2026, here its
  three UTF-8 bytes. No function of the class reads this dictionary.
\<close>

definition ERROR_CODES_DICT :: "(int \<times> string) list" where
  "ERROR_CODES_DICT =
     [(400, ''Bad request''),
      (401, ''Failed to authenticate, check your authenticat'' @ [CHR 0xE2, CHR 0x80, CHR 0xA6]),
      (410, ''Unauthorized''),
      (403, ''Forbidden''),
      (404, ''Not Found''),
      (405, ''Method not allowed''),
      (406, ''Not acceptable''),
      (409, ''Conflict''),
      (415, ''Unsopprted Media Type''),
      (500, ''Internal Server Error''),
      (502, ''Bad Gateway''),
      (503, ''Service Unavailable''),
      (504, ''Gateway Timeout'')]"

text \<open>\<open>response.dataflow().response\<close> for the client, the response itself otherwise.\<close>

definition connector_response :: "response \<Rightarrow> http_response io" where
  "connector_response response =
     (case response of Raw r \<Rightarrow> io_return r | Client c \<Rightarrow> external c)"

text \<open>\<open>ECB_DATA_INFO.__connection_handler\<close>.\<close>

definition connection_handler :: "response \<Rightarrow> unit io" where
  "connection_handler response =
     io_bind (connector_response response) (\<lambda>cr.
       if status_code cr = 200
       then io_emit (Log INFO (''Connection established with url: '' @ url cr
                               @ '' and headers: '' @ headers cr))
       else (case map_of errors_msgs (status_code cr) of
               Some msg \<Rightarrow>
                 io_raise (Exception (''Request Error Code: '' @ str_int (status_code cr)
                                      @ '' - '' @ msg))
             | None \<Rightarrow>
                 io_bind (io_emit (Log ERROR (''Unexpected Error: '' @ url cr @ '' - ''
                                              @ headers cr))) (\<lambda>_.
                 io_bind (io_emit (Log ERROR (''Request Error Code: ''
                                              @ str_int (status_code cr)))) (\<lambda>_.
                 raise_for_status cr))))"

section \<open>Tables\<close>

text \<open>
  A \<open>pandas\<close> table: the column names and the rows, each row with its index label. A
  table read from CSV has the positions \<open>0, 1, ...\<close> as labels; a table indexed by time
  has parsed timestamps.
\<close>

datatype index_label = Pos nat | Time int

record data_frame =
  columns :: "string list"
  index_name :: "string option"
  rows :: "(index_label \<times> string list) list"

section \<open>Metadata and external collaborators\<close>

text \<open>
  What the metadata client returns for a dataflow, as far as the code reads it: the
  message holds dataflow definitions by identifier, a definition refers to its data
  structure definition, and each dimension component has a name and, possibly, an
  enumerated list of coded values (code and description).
\<close>

record dimension_component =
  dim_id :: string
  enumerated :: "(string \<times> string) list option"

record data_structure_definition =
  dimensions :: "dimension_component list"
  attributes :: "string list"
  measures :: "string list"

text \<open>A dataflow definition; \<open>flow_structure\<close> is its attribute \<open>structure\<close>.\<close>

record dataflow_definition =
  flow_structure :: data_structure_definition

record structure_message =
  dataflow :: "(string \<times> dataflow_definition) list"

text \<open>
  The external collaborators: the HTTP transport (\<open>requests.get\<close> with the URL and
  the headers), the metadata client, and the parsers of \<open>pandas\<close> and \<open>sdmx\<close>. Each
  either fails with a message or gives a result.
\<close>

record world =
  requests_get :: "string \<Rightarrow> (string \<times> string) list \<Rightarrow> string + http_response"
  client_dataflow :: "string \<Rightarrow> string + structure_message"
  read_csv :: "string \<Rightarrow> string + string list \<times> string list list"
  to_datetime :: "string \<Rightarrow> string + int"
  to_pandas_codelist :: "(string \<times> string) list option \<Rightarrow> string + (string \<times> string) list"

text \<open>The fields of an \<open>ECB_DATA_INFO\<close> instance.\<close>

record ecb_data_info =
  proxies :: "(string \<times> string) list option"
  verify :: "bool option"
  api_endpoint :: string
  all_dataflows :: "(string \<times> string) list"

section \<open>Table operations\<close>

text \<open>The table \<open>pd.read_csv\<close> builds from the parsed header and rows, labelled by position.\<close>

definition from_csv :: "string list \<times> string list list \<Rightarrow> data_frame" where
  "from_csv csv =
     \<lparr>columns = fst csv, index_name = None,
      rows = map (\<lambda>(i, r). (Pos i, r)) (enumerate 0 (snd csv))\<rparr>"

definition cell_at :: "string list \<Rightarrow> nat \<Rightarrow> string" where
  "cell_at r i = (if i < length r then r ! i else [])"

definition index_of :: "string \<Rightarrow> string list \<Rightarrow> nat" where
  "index_of name cols = length (takeWhile (\<lambda>c. c \<noteq> name) cols)"

fun parse_index :: "(string \<Rightarrow> string + int) \<Rightarrow> nat \<Rightarrow> (index_label \<times> string list) list
    \<Rightarrow> string + (index_label \<times> string list) list" where
  "parse_index parse i [] = Inr []"
| "parse_index parse i ((l, r) # rs) =
     (case parse (cell_at r i) of
        Inl m \<Rightarrow> Inl m
      | Inr t \<Rightarrow>
          (case parse_index parse i rs of
             Inl m \<Rightarrow> Inl m
           | Inr rs' \<Rightarrow> Inr ((Time t, take i r @ drop (Suc i) r) # rs')))"

text \<open>
  \<open>df.rename({"TIME_PERIOD": "Date"}, axis=1).set_index("Date")\<close> followed by
  \<open>df.index = pd.to_datetime(df.index)\<close>: the column leaves the table and its parsed
  values become the index. When the table already has a column \<open>Date\<close> beside
  \<open>TIME_PERIOD\<close> the label is not unique and \<open>pandas\<close> fails on the resulting index
  (a \<open>TypeError\<close> of \<open>to_datetime\<close>).
\<close>

definition set_time_index :: "world \<Rightarrow> data_frame \<Rightarrow> data_frame io" where
  "set_time_index w df =
     (let cols = map (\<lambda>c. if c = ''TIME_PERIOD'' then ''Date'' else c) (columns df);
          i = index_of ''Date'' cols
      in if length (filter (\<lambda>c. c = ''Date'') cols) \<noteq> 1
         then io_raise (LibraryError ''TypeError'')
         else io_bind (external (parse_index (to_datetime w) i (rows df))) (\<lambda>rs.
              io_return \<lparr>columns = take i cols @ drop (Suc i) cols,
                         index_name = Some ''Date'', rows = rs\<rparr>))"

fun index_key :: "index_label \<Rightarrow> int" where
  "index_key (Pos n) = int n"
| "index_key (Time t) = t"

text \<open>
  \<open>df.sort_index(ascending=ascending)\<close>: the rows ordered by their index label;
  descending order is the reverse of sorting the reversed rows. The order \<open>pandas\<close>
  gives to rows with equal labels is not fixed (its default sort is not stable on larger
  tables); here they keep the order of a stable sort, so for a table with repeated
  labels only the order of the labels, not the order within a label, is that of the code.
\<close>

definition sort_index :: "bool \<Rightarrow> data_frame \<Rightarrow> data_frame" where
  "sort_index ascending df =
     df\<lparr>rows := (if ascending then sort_key (\<lambda>x. index_key (fst x)) (rows df)
                 else rev (sort_key (\<lambda>x. index_key (fst x)) (rev (rows df))))\<rparr>"

section \<open>Data retrieval\<close>

text \<open>
  \<open>ECB_DATA_INFO.get_ecb_data\<close>. With \<open>series_key\<close> \<open>None\<close> the body is skipped and
  the function returns \<open>None\<close>.
\<close>

definition get_ecb_data ::
    "world \<Rightarrow> ecb_data_info \<Rightarrow> string option \<Rightarrow> url_params \<Rightarrow> bool \<Rightarrow> data_frame option io" where
  "get_ecb_data w self series_key p ascending =
     (case series_key of
        None \<Rightarrow> io_return None
      | Some key \<Rightarrow>
          io_bind (lift (build_url (api_endpoint self) key p)) (\<lambda>req_url.
          io_bind (io_emit (HttpGet req_url [])) (\<lambda>_.
          io_bind (external (requests_get w req_url [])) (\<lambda>response.
          io_bind (connection_handler (Raw response)) (\<lambda>_.
          io_bind (external (read_csv w (body response))) (\<lambda>csv.
          io_bind (if ''TIME_PERIOD'' \<in> set (columns (from_csv csv))
                   then set_time_index w (from_csv csv)
                   else io_return (from_csv csv)) (\<lambda>df.
          io_return (Some (sort_index ascending df)))))))))"

section \<open>Series keys of a dataflow\<close>

text \<open>\<open>ECB_DATA_INFO.all_data_keys_for_dataflow\<close>.\<close>

definition all_data_keys_for_dataflow ::
    "world \<Rightarrow> ecb_data_info \<Rightarrow> string \<Rightarrow> data_frame option io" where
  "all_data_keys_for_dataflow w self dataflow_id =
     (if dataflow_id \<in> set (map fst (all_dataflows self))
      then
        (let req_url = ''https://data-api.ecb.europa.eu/service/data/'' @ dataflow_id in
          io_bind (io_emit (HttpGet req_url [(''Accept'', ''text/csv'')])) (\<lambda>_.
          io_bind (external (requests_get w req_url [(''Accept'', ''text/csv'')])) (\<lambda>response.
          io_bind (connection_handler (Raw response)) (\<lambda>_.
          io_bind (external (read_csv w (body response))) (\<lambda>csv.
          io_return (Some (from_csv csv)))))))
      else
        io_bind (io_emit (Log ERROR (''Provided dataflow: '' @ dataflow_id
                                     @ '' is not existing''))) (\<lambda>_.
        io_return None))"

text \<open>
  \<open>str.lower\<close> and the substring test \<open>a in b\<close>. Only the letters \<open>A\<close> to \<open>Z\<close> are
  lowered: this is \<open>str.lower\<close> on ASCII text, not on other Unicode letters.
\<close>

definition lower_char :: "char \<Rightarrow> char" where
  "lower_char c =
     (if 65 \<le> (of_char c :: nat) \<and> (of_char c :: nat) \<le> 90
      then char_of ((of_char c :: nat) + 32) else c)"

definition lower :: "string \<Rightarrow> string" where
  "lower s = map lower_char s"

fun str_in :: "string \<Rightarrow> string \<Rightarrow> bool" where
  "str_in k [] = (k = [])"
| "str_in k (c # cs) = (prefix k (c # cs) \<or> str_in k cs)"

text \<open>\<open>Series.unique()\<close>: the distinct values in order of first appearance.\<close>

definition unique :: "'a list \<Rightarrow> 'a list" where
  "unique xs = rev (remdups (rev xs))"

text \<open>The values of a column, or nothing when the table has no such column.\<close>

definition column :: "string \<Rightarrow> data_frame \<Rightarrow> string list option" where
  "column name df =
     (if name \<in> set (columns df)
      then Some (map (\<lambda>x. cell_at (snd x) (index_of name (columns df))) (rows df))
      else None)"

definition reset_index :: "data_frame \<Rightarrow> data_frame" where
  "reset_index df =
     df\<lparr>index_name := None,
        rows := map (\<lambda>(i, x). (Pos i, snd x)) (enumerate 0 (rows df))\<rparr>"

text \<open>
  \<open>ECB_DATA_INFO.search_data_keys_for_dataflow\<close>. The titles are lowered, the keyword
  is used as given. Reading \<open>.TITLE_COMPL\<close> of a table without that column raises.
  Every cell is text: a missing title, on which the code's \<open>title_c.lower()\<close> raises,
  is not represented.
\<close>

definition search_data_keys_for_dataflow :: "string \<Rightarrow> data_frame \<Rightarrow> error + data_frame" where
  "search_data_keys_for_dataflow key_word df =
     (case column ''TITLE_COMPL'' df of
        None \<Rightarrow> Inl (AttributeError ''TITLE_COMPL'')
      | Some titles \<Rightarrow>
          (let title_compl_lower = map lower (unique titles);
               key_word_results = filter (\<lambda>title_c. str_in key_word title_c) title_compl_lower
           in Inr (reset_index
                (df\<lparr>rows := filter (\<lambda>x. lower (cell_at (snd x)
                                            (index_of ''TITLE_COMPL'' (columns df)))
                                        \<in> set key_word_results) (rows df)\<rparr>))))"

section \<open>Dimensions of a dataflow\<close>

text \<open>
  The metadata lookup shared by the discovery operations:
  \<open>self.ecb_connection.dataflow(dataflow)\<close>, then \<open>.dataflow.get(dataflow)\<close>, which
  is \<open>None\<close> for an identifier the message does not hold.
\<close>

definition dataflow_structure :: "world \<Rightarrow> string \<Rightarrow> error + data_structure_definition" where
  "dataflow_structure w dataflow_id =
     (case client_dataflow w dataflow_id of
        Inl m \<Rightarrow> Inl (LibraryError m)
      | Inr metadata_dataflow \<Rightarrow>
          (case map_of (dataflow metadata_dataflow) dataflow_id of
             None \<Rightarrow> Inl (ValueError (''No DataflowDefinition found for dataflow: ''
                                      @ dataflow_id))
           | Some metadata_dataflow_flow \<Rightarrow> Inr (flow_structure metadata_dataflow_flow)))"

text \<open>\<open>ECB_DATA_INFO.search_dataflow_dimensions\<close>: the names of the dimension components.\<close>

definition search_dataflow_dimensions :: "world \<Rightarrow> string \<Rightarrow> error + string list" where
  "search_dataflow_dimensions w dataflow_id =
     (case dataflow_structure w dataflow_id of
        Inl e \<Rightarrow> Inl e
      | Inr dsd_flow \<Rightarrow> Inr (map dim_id (dimensions dsd_flow)))"

text \<open>
  \<open>ECB_DATA_INFO.search_dataflow_dimension_values\<close>. \<open>dimensions.get(dimension)\<close> is
  the component of that name and raises \<open>KeyError\<close> when there is none.
\<close>

definition search_dataflow_dimension_values ::
    "world \<Rightarrow> string \<Rightarrow> string \<Rightarrow> error + (string \<times> string) list" where
  "search_dataflow_dimension_values w dataflow_id dimension =
     (case dataflow_structure w dataflow_id of
        Inl e \<Rightarrow> Inl e
      | Inr dsd_flow \<Rightarrow>
          (let dimensions_list = map dim_id (dimensions dsd_flow) in
           if dimension \<notin> set dimensions_list
           then Inl (ValueError (''Dimension '' @ [CHR 0x27] @ dimension @ [CHR 0x27]
                                 @ '' not found in dataflow: '' @ dataflow_id))
           else (case find (\<lambda>d. dim_id d = dimension) (dimensions dsd_flow) of
                   None \<Rightarrow> Inl (KeyError dimension)
                 | Some d \<Rightarrow>
                     (case to_pandas_codelist w (enumerated d) of
                        Inl m \<Rightarrow> Inl (LibraryError m)
                      | Inr values_series \<Rightarrow> Inr values_series))))"

section \<open>Sample inputs\<close>

text \<open>Concrete responses, collaborators and an instance, for the evaluated examples.\<close>

definition sample_response :: "int \<Rightarrow> string \<Rightarrow> http_response" where
  "sample_response c r =
     \<lparr>status_code = c, url = ''https://data-api.ecb.europa.eu/service/data/EXR'',
      headers = ''{}'', reason = r, body = ''KEY''\<rparr>"

definition sample_message :: structure_message where
  "sample_message =
     \<lparr>dataflow =
        [(''EXR'',
          \<lparr>flow_structure =
             \<lparr>dimensions =
                [\<lparr>dim_id = ''FREQ'',
                   enumerated = Some [(''A'', ''Annual''), (''M'', ''Monthly'')]\<rparr>,
                 \<lparr>dim_id = ''TIME_PERIOD'', enumerated = None\<rparr>],
              attributes = [''TITLE_COMPL''],
              measures = [''OBS_VALUE'']\<rparr>\<rparr>)]\<rparr>"

definition sample_world :: "http_response \<Rightarrow> string list \<times> string list list \<Rightarrow> world" where
  "sample_world r csv =
     \<lparr>requests_get = (\<lambda>u h. Inr r),
      client_dataflow = (\<lambda>i. if i = ''EXR'' then Inr sample_message
                              else Inl ''404 Client Error''),
      read_csv = (\<lambda>t. Inr csv),
      to_datetime = (\<lambda>s. if s = ''2020-01'' then Inr 1 else if s = ''2020-02'' then Inr 2
                          else Inl ''Unknown datetime string format''),
      to_pandas_codelist = (\<lambda>c. case c of None \<Rightarrow> Inl ''no code list'' | Some l \<Rightarrow> Inr l)\<rparr>"

definition sample_instance :: ecb_data_info where
  "sample_instance =
     \<lparr>proxies = None, verify = None, api_endpoint = ''https://sdw-wsrest.ecb.europa.eu'',
      all_dataflows = [(''EXR'', ''Exchange Rates''), (''FM'', ''Financial market data'')]\<rparr>"

definition keys_only_csv :: "string list \<times> string list list" where
  "keys_only_csv = ([''KEY''], [[''EXR.D.USD.EUR.SP00.A''], [''EXR.M.USD.EUR.SP00.A'']])"


definition sample_keys :: data_frame where
  "sample_keys =
     \<lparr>columns = [''KEY'', ''TITLE_COMPL''], index_name = None,
      rows = [(Pos 0, [''FM.M.U2.EUR.RT.MM.EURIBOR1YD_.HSTA'', ''Euribor 1-year rate'']),
              (Pos 1, [''FM.M.U2.EUR.4F.MM.UONSTR.HSTA'', ''Euro short-term rate''])]\<rparr>"

section \<open>Properties of the URL builder\<close>

lemma split_first_at_dot:
  "c \<notin> set d \<Longrightarrow> split_first c (d @ c # rest) = [d, rest]"
proof -
  assume d: "c \<notin> set d"
  have "dropWhile (\<lambda>x. x \<noteq> c) (d @ c # rest) = c # rest"
    using d by (induction d) auto
  moreover have "takeWhile (\<lambda>x. x \<noteq> c) (d @ c # rest) = d"
    using d by (induction d) auto
  ultimately show ?thesis
    by (simp add: split_first_def)
qed

lemma add_param_app:
  "add_param name v u = u @ (if truthy v then name @ py_format v else [])"
  by (simp add: add_param_def)

text \<open>
  C1. For a series key \<open>dataflow.rest\<close> (the dataflow part holding no \<open>'.'\<close>, so that the
  split is at the first \<open>'.'\<close>) and every combination of the optional parameters,
  \<open>_build_url\<close> returns \<open>endpoint/service/data/dataflow/rest?format=csvdata\<close> followed
  by the seven terms in their fixed order, each present exactly when its parameter is
  truthy, with the formatted raw value substituted; with no optional parameter set
  nothing follows \<open>?format=csvdata\<close>.
\<close>

theorem build_url_form:
  assumes "CHR ''.'' \<notin> set data_flow"
  shows "build_url ep (data_flow @ ''.'' @ rest) p =
           Inr (ep @ ''/service/data/'' @ data_flow @ ''/'' @ rest @ ''?format=csvdata''
                @ (if truthy (start_date p)
                   then ''&startPeriod='' @ py_format (start_date p) else [])
                @ (if truthy (end_date p)
                   then ''&endPeriod='' @ py_format (end_date p) else [])
                @ (if truthy (detail p)
                   then ''&detail='' @ py_format (detail p) else [])
                @ (if truthy (update_after p)
                   then ''&updatedAfter='' @ py_format (update_after p) else [])
                @ (if truthy (first_n_observations p)
                   then ''&firstNObservations='' @ py_format (first_n_observations p) else [])
                @ (if truthy (last_n_observations p)
                   then ''&lastNObservations='' @ py_format (last_n_observations p) else [])
                @ (if truthy (include_history p)
                   then ''&includeHistory='' @ py_format (include_history p) else []))
         \<and> build_url ep (data_flow @ ''.'' @ rest) no_params =
             Inr (ep @ ''/service/data/'' @ data_flow @ ''/'' @ rest @ ''?format=csvdata'')"
proof -
  have s: "split_first CHR ''.'' (data_flow @ CHR ''.'' # rest) = [data_flow, rest]"
    by (rule split_first_at_dot [OF assms])
  have "build_url ep (data_flow @ CHR ''.'' # rest) q =
          Inr (ep @ ''/service/data/'' @ data_flow @ ''/'' @ rest @ ''?format=csvdata''
                @ (if truthy (start_date q)
                   then ''&startPeriod='' @ py_format (start_date q) else [])
                @ (if truthy (end_date q)
                   then ''&endPeriod='' @ py_format (end_date q) else [])
                @ (if truthy (detail q)
                   then ''&detail='' @ py_format (detail q) else [])
                @ (if truthy (update_after q)
                   then ''&updatedAfter='' @ py_format (update_after q) else [])
                @ (if truthy (first_n_observations q)
                   then ''&firstNObservations='' @ py_format (first_n_observations q) else [])
                @ (if truthy (last_n_observations q)
                   then ''&lastNObservations='' @ py_format (last_n_observations q) else [])
                @ (if truthy (include_history q)
                   then ''&includeHistory='' @ py_format (include_history q) else []))" for q
    unfolding build_url_def s Let_def add_param_app
    by (simp split del: if_split)
  from this [of p] this [of no_params] show ?thesis
    by (simp add: no_params_def split del: if_split)
qed

theorem build_url_form_witness:
  "CHR ''.'' \<notin> set ''FM''
   \<and> build_url ''https://sdw-wsrest.ecb.europa.eu'' ''FM.M.U2.EUR.RT.MM.EURIBOR1YD_.HSTA''
        (no_params\<lparr>start_date := PStr ''2020-01-01'', end_date := PStr ''2024-10-23'',
           last_n_observations := PInt 12, include_history := PBool True\<rparr>)
       = Inr (''https://sdw-wsrest.ecb.europa.eu/service/data/FM/M.U2.EUR.RT.MM.EURIBOR1YD_.HSTA''
              @ ''?format=csvdata&startPeriod=2020-01-01&endPeriod=2024-10-23''
              @ ''&lastNObservations=12&includeHistory=True'')
   \<and> build_url ''https://sdw-wsrest.ecb.europa.eu'' ''FM.M.U2.EUR.RT.MM.EURIBOR1YD_.HSTA''
        no_params
       = Inr (''https://sdw-wsrest.ecb.europa.eu/service/data/FM/M.U2.EUR.RT.MM.EURIBOR1YD_.HSTA''
              @ ''?format=csvdata'')"
proof -
  have d: "CHR ''.'' \<notin> set ''FM''" by simp
  have n: "str_int 12 = ''12''"
    by code_simp
  show ?thesis
    using build_url_form [OF d, of "''https://sdw-wsrest.ecb.europa.eu''"
        "''M.U2.EUR.RT.MM.EURIBOR1YD_.HSTA''"
        "no_params\<lparr>start_date := PStr ''2020-01-01'', end_date := PStr ''2024-10-23'',
           last_n_observations := PInt 12, include_history := PBool True\<rparr>"]
    by (simp add: no_params_def n)
qed

text \<open>
  C3. For each of the seven optional parameters, an explicit falsy value (\<open>False\<close>,
  \<open>0\<close>, the empty string) gives exactly the URL that \<open>None\<close>, the value of a parameter
  that is not supplied, gives: a falsy value contributes no query-string term.
\<close>

theorem build_url_falsy_as_absent:
  assumes "\<not> truthy v"
  shows "build_url ep key (p\<lparr>start_date := v\<rparr>) = build_url ep key (p\<lparr>start_date := PNone\<rparr>)
       \<and> build_url ep key (p\<lparr>end_date := v\<rparr>) = build_url ep key (p\<lparr>end_date := PNone\<rparr>)
       \<and> build_url ep key (p\<lparr>detail := v\<rparr>) = build_url ep key (p\<lparr>detail := PNone\<rparr>)
       \<and> build_url ep key (p\<lparr>update_after := v\<rparr>)
           = build_url ep key (p\<lparr>update_after := PNone\<rparr>)
       \<and> build_url ep key (p\<lparr>first_n_observations := v\<rparr>)
           = build_url ep key (p\<lparr>first_n_observations := PNone\<rparr>)
       \<and> build_url ep key (p\<lparr>last_n_observations := v\<rparr>)
           = build_url ep key (p\<lparr>last_n_observations := PNone\<rparr>)
       \<and> build_url ep key (p\<lparr>include_history := v\<rparr>)
           = build_url ep key (p\<lparr>include_history := PNone\<rparr>)"
proof -
  have a: "add_param name v u = add_param name PNone u" for name u
    using assms by (simp add: add_param_def)
  show ?thesis
    unfolding build_url_def Let_def
    by (simp add: a split del: if_split cong: list.case_cong)
qed

theorem build_url_falsy_as_absent_witness:
  "\<not> truthy (PBool False) \<and> \<not> truthy (PInt 0) \<and> \<not> truthy (PStr [])
   \<and> build_url ''https://sdw-wsrest.ecb.europa.eu'' ''EXR.D.USD.EUR.SP00.A''
         (no_params\<lparr>include_history := PBool False\<rparr>)
       = Inr ''https://sdw-wsrest.ecb.europa.eu/service/data/EXR/D.USD.EUR.SP00.A?format=csvdata''
   \<and> build_url ''https://sdw-wsrest.ecb.europa.eu'' ''EXR.D.USD.EUR.SP00.A''
         (no_params\<lparr>first_n_observations := PInt 0\<rparr>)
       = Inr ''https://sdw-wsrest.ecb.europa.eu/service/data/EXR/D.USD.EUR.SP00.A?format=csvdata''
   \<and> build_url ''https://sdw-wsrest.ecb.europa.eu'' ''EXR.D.USD.EUR.SP00.A''
         (no_params\<lparr>start_date := PStr []\<rparr>)
       = Inr ''https://sdw-wsrest.ecb.europa.eu/service/data/EXR/D.USD.EUR.SP00.A?format=csvdata''"
proof -
  have f: "\<not> truthy (PBool False)" "\<not> truthy (PInt 0)" "\<not> truthy (PStr [])"
    by simp_all
  have u: "build_url ''https://sdw-wsrest.ecb.europa.eu'' ''EXR.D.USD.EUR.SP00.A'' no_params
       = Inr ''https://sdw-wsrest.ecb.europa.eu/service/data/EXR/D.USD.EUR.SP00.A?format=csvdata''"
    by (simp add: build_url_def split_first_def add_param_def no_params_def)
  have n: "no_params\<lparr>include_history := PNone\<rparr> = no_params"
    "no_params\<lparr>first_n_observations := PNone\<rparr> = no_params"
    "no_params\<lparr>start_date := PNone\<rparr> = no_params"
    by (simp_all add: no_params_def)
  show ?thesis
    using build_url_falsy_as_absent [OF f(1), of "''https://sdw-wsrest.ecb.europa.eu''"
        "''EXR.D.USD.EUR.SP00.A''" no_params]
      build_url_falsy_as_absent [OF f(2), of "''https://sdw-wsrest.ecb.europa.eu''"
        "''EXR.D.USD.EUR.SP00.A''" no_params]
      build_url_falsy_as_absent [OF f(3), of "''https://sdw-wsrest.ecb.europa.eu''"
        "''EXR.D.USD.EUR.SP00.A''" no_params]
      u f
    by (simp add: n)
qed

section \<open>Properties of the validator\<close>

lemma connector_response_ok:
  "response = Raw cr \<or> response = Client (Inr cr) \<Longrightarrow>
   connector_response response = (Inr cr, [])"
  by (auto simp: connector_response_def external_def io_return_def)

lemma handler_ok:
  assumes "response = Raw cr \<or> response = Client (Inr cr)" and "status_code cr = 200"
  shows "connection_handler response =
           (Inr (), [Log INFO (''Connection established with url: '' @ url cr
                               @ '' and headers: '' @ headers cr)])"
  unfolding connection_handler_def connector_response_ok [OF assms(1)]
  using assms(2) by (simp add: io_bind_def io_emit_def)

lemma handler_known:
  assumes "response = Raw cr \<or> response = Client (Inr cr)" and "status_code cr \<noteq> 200"
    and "map_of errors_msgs (status_code cr) = Some msg"
  shows "connection_handler response =
           (Inl (Exception (''Request Error Code: '' @ str_int (status_code cr)
                            @ '' - '' @ msg)), [])"
  unfolding connection_handler_def connector_response_ok [OF assms(1)]
  using assms(2,3) by (simp add: io_bind_def io_raise_def)

lemma handler_unknown:
  assumes "response = Raw cr \<or> response = Client (Inr cr)" and "status_code cr \<noteq> 200"
    and "map_of errors_msgs (status_code cr) = None"
  shows "connection_handler response =
           (fst (raise_for_status cr),
            [Log ERROR (''Unexpected Error: '' @ url cr @ '' - '' @ headers cr),
             Log ERROR (''Request Error Code: '' @ str_int (status_code cr))])"
  unfolding connection_handler_def connector_response_ok [OF assms(1)]
  using assms(2,3)
  by (simp add: io_bind_def io_emit_def raise_for_status_def io_raise_def io_return_def)

lemma errors_msgs_known:
  "c \<in> {304, 400, 404, 406, 500, 501, 503} \<longleftrightarrow> (\<exists>msg. map_of errors_msgs c = Some msg)"
  by (auto simp: errors_msgs_def)

lemma errors_msgs_unknown:
  "c \<notin> {304, 400, 404, 406, 500, 501, 503} \<longleftrightarrow> map_of errors_msgs c = None"
  by (auto simp: errors_msgs_def)

text \<open>
  C2. For every response the validator gets a status code from (a raw response, or the
  response the client's \<open>dataflow()\<close> call holds): with status 200 it does not raise
  and logs one informational entry; with a status in the table 304, 400, 404, 406, 500,
  501, 503 it raises an \<open>Exception\<close> whose message holds the code and the table's message
  for it; with any other status it logs at error level and its outcome is that of the
  response's own \<open>raise_for_status\<close>.
\<close>

theorem connection_handler_cases:
  assumes "response = Raw cr \<or> response = Client (Inr cr)"
  shows "(status_code cr = 200 \<longrightarrow>
            connection_handler response =
              (Inr (), [Log INFO (''Connection established with url: '' @ url cr
                                  @ '' and headers: '' @ headers cr)]))
       \<and> (status_code cr \<in> {304, 400, 404, 406, 500, 501, 503} \<longrightarrow>
            (\<exists>msg. map_of errors_msgs (status_code cr) = Some msg
               \<and> connection_handler response =
                   (Inl (Exception (''Request Error Code: '' @ str_int (status_code cr)
                                    @ '' - '' @ msg)), [])))
       \<and> (status_code cr \<noteq> 200 \<and> status_code cr \<notin> {304, 400, 404, 406, 500, 501, 503} \<longrightarrow>
            connection_handler response =
              (fst (raise_for_status cr),
               [Log ERROR (''Unexpected Error: '' @ url cr @ '' - '' @ headers cr),
                Log ERROR (''Request Error Code: '' @ str_int (status_code cr))]))"
proof (intro conjI impI)
  assume "status_code cr = 200"
  then show "connection_handler response =
      (Inr (), [Log INFO (''Connection established with url: '' @ url cr
                          @ '' and headers: '' @ headers cr)])"
    by (rule handler_ok [OF assms])
next
  assume k: "status_code cr \<in> {304, 400, 404, 406, 500, 501, 503}"
  then obtain msg where m: "map_of errors_msgs (status_code cr) = Some msg"
    using errors_msgs_known by blast
  from k have "status_code cr \<noteq> 200" by auto
  from handler_known [OF assms this m] m
  show "\<exists>msg. map_of errors_msgs (status_code cr) = Some msg
          \<and> connection_handler response =
              (Inl (Exception (''Request Error Code: '' @ str_int (status_code cr)
                               @ '' - '' @ msg)), [])"
    by blast
next
  assume u: "status_code cr \<noteq> 200
             \<and> status_code cr \<notin> {304, 400, 404, 406, 500, 501, 503}"
  then have "map_of errors_msgs (status_code cr) = None"
    using errors_msgs_unknown by blast
  with u show "connection_handler response =
      (fst (raise_for_status cr),
       [Log ERROR (''Unexpected Error: '' @ url cr @ '' - '' @ headers cr),
        Log ERROR (''Request Error Code: '' @ str_int (status_code cr))])"
    using handler_unknown [OF assms] by blast
qed

lemma str_int_samples:
  "str_int 404 = ''404''" "str_int 418 = ''418''" "str_int 502 = ''502''"
  "str_int 410 = ''410''" "str_int 204 = ''204''"
  by code_simp+

theorem connection_handler_cases_witness:
  "connection_handler (Raw (sample_response 200 ''OK'')) =
     (Inr (), [Log INFO (''Connection established with url: ''
                         @ ''https://data-api.ecb.europa.eu/service/data/EXR''
                         @ '' and headers: {}'')])
   \<and> connection_handler (Client (Inr (sample_response 404 ''Not Found''))) =
     (Inl (Exception (''Request Error Code: 404 - ''
                      @ ''No results found. There are no results matching the query.'')), [])
   \<and> connection_handler (Raw (sample_response 418 ''I'm a teapot'')) =
     (Inl (HTTPError (''418 Client Error: I'm a teapot for url: ''
                      @ ''https://data-api.ecb.europa.eu/service/data/EXR'')),
      [Log ERROR (''Unexpected Error: https://data-api.ecb.europa.eu/service/data/EXR''
                  @ '' - {}''),
       Log ERROR ''Request Error Code: 418''])"
proof -
  have a: "Raw (sample_response 200 ''OK'') = Raw (sample_response 200 ''OK'')
           \<or> Raw (sample_response 200 ''OK'') = Client (Inr (sample_response 200 ''OK''))"
    by simp
  have b: "Client (Inr (sample_response 404 ''Not Found'')) = Raw (sample_response 404 ''Not Found'')
           \<or> Client (Inr (sample_response 404 ''Not Found''))
             = Client (Inr (sample_response 404 ''Not Found''))"
    by simp
  have c: "Raw (sample_response 418 ''I'm a teapot'') = Raw (sample_response 418 ''I'm a teapot'')
           \<or> Raw (sample_response 418 ''I'm a teapot'')
             = Client (Inr (sample_response 418 ''I'm a teapot''))"
    by simp
  show ?thesis
    using connection_handler_cases [OF a] connection_handler_cases [OF b]
      connection_handler_cases [OF c]
    by (simp add: sample_response_def errors_msgs_def raise_for_status_def io_raise_def
        str_int_samples)
qed

text \<open>
  C5 (as the code has it). The validator never reads the table of \<open>config.py\<close>. For a
  status code of that table: the codes 400, 404, 406, 500 and 503, which the
  validator's own table also holds, fail with an \<open>Exception\<close> carrying the code and the
  message of the validator's own table; the codes 401, 403, 405, 409, 410, 415, 502 and
  504 are logged at error level and fail with the \<open>HTTPError\<close> of \<open>raise_for_status\<close>,
  whose message is built from the response's code, reason phrase and URL.
\<close>

theorem secondary_table_not_consulted:
  assumes "response = Raw cr \<or> response = Client (Inr cr)"
    and "status_code cr \<in> set (map fst ERROR_CODES_DICT)"
  shows "(status_code cr \<in> {400, 404, 406, 500, 503}
          \<and> (\<exists>msg. map_of errors_msgs (status_code cr) = Some msg
                \<and> connection_handler response =
                    (Inl (Exception (''Request Error Code: '' @ str_int (status_code cr)
                                     @ '' - '' @ msg)), [])))
       \<or> (status_code cr \<in> {401, 403, 405, 409, 410, 415, 502, 504}
          \<and> connection_handler response =
              (Inl (HTTPError (str_int (status_code cr)
                               @ (if status_code cr < 500 then '' Client Error: ''
                                  else '' Server Error: '')
                               @ reason cr @ '' for url: '' @ url cr)),
               [Log ERROR (''Unexpected Error: '' @ url cr @ '' - '' @ headers cr),
                Log ERROR (''Request Error Code: '' @ str_int (status_code cr))]))"
proof -
  from assms(2) consider
      (known) "status_code cr \<in> {400, 404, 406, 500, 503}"
    | (other) "status_code cr \<in> {401, 403, 405, 409, 410, 415, 502, 504}"
    by (auto simp: ERROR_CODES_DICT_def)
  then show ?thesis
  proof cases
    case known
    then obtain msg where m: "map_of errors_msgs (status_code cr) = Some msg"
      by (auto simp: errors_msgs_def)
    from known have "status_code cr \<noteq> 200" by auto
    from handler_known [OF assms(1) this m] m known show ?thesis by blast
  next
    case other
    then have n: "map_of errors_msgs (status_code cr) = None"
      by (auto simp: errors_msgs_def)
    from other have k: "status_code cr \<noteq> 200" by auto
    from other have "fst (raise_for_status cr) =
        Inl (HTTPError (str_int (status_code cr)
                        @ (if status_code cr < 500 then '' Client Error: ''
                           else '' Server Error: '')
                        @ reason cr @ '' for url: '' @ url cr))"
      by (auto simp: raise_for_status_def io_raise_def)
    with handler_unknown [OF assms(1) k n] other show ?thesis by simp
  qed
qed

theorem secondary_table_not_consulted_witness:
  "502 \<in> set (map fst ERROR_CODES_DICT) \<and> 404 \<in> set (map fst ERROR_CODES_DICT)
   \<and> connection_handler (Raw (sample_response 502 ''Proxy Error'')) =
       (Inl (HTTPError (''502 Server Error: Proxy Error for url: ''
                        @ ''https://data-api.ecb.europa.eu/service/data/EXR'')),
        [Log ERROR (''Unexpected Error: https://data-api.ecb.europa.eu/service/data/EXR''
                    @ '' - {}''),
         Log ERROR ''Request Error Code: 502''])
   \<and> connection_handler (Raw (sample_response 404 ''Not Found'')) =
       (Inl (Exception (''Request Error Code: 404 - ''
                        @ ''No results found. There are no results matching the query.'')), [])"
proof -
  let ?r = "sample_response 502 ''Proxy Error''"
  let ?q = "sample_response 404 ''Not Found''"
  have a: "Raw ?r = Raw ?r \<or> Raw ?r = Client (Inr ?r)"
    and a': "Raw ?q = Raw ?q \<or> Raw ?q = Client (Inr ?q)"
    by simp_all
  have b: "status_code ?r \<in> set (map fst ERROR_CODES_DICT)"
    and b': "status_code ?q \<in> set (map fst ERROR_CODES_DICT)"
    by (simp_all add: sample_response_def ERROR_CODES_DICT_def)
  have v: "status_code ?r = 502" "status_code ?q = 404"
    by (simp_all add: sample_response_def)
  from secondary_table_not_consulted [OF a b]
  have 1: "connection_handler (Raw ?r) =
       (Inl (HTTPError (''502 Server Error: Proxy Error for url: ''
                        @ ''https://data-api.ecb.europa.eu/service/data/EXR'')),
        [Log ERROR (''Unexpected Error: https://data-api.ecb.europa.eu/service/data/EXR''
                    @ '' - {}''),
         Log ERROR ''Request Error Code: 502''])"
    by (simp add: sample_response_def str_int_samples)
  from secondary_table_not_consulted [OF a' b']
  have 2: "connection_handler (Raw ?q) =
       (Inl (Exception (''Request Error Code: 404 - ''
                        @ ''No results found. There are no results matching the query.'')), [])"
    by (simp add: sample_response_def str_int_samples errors_msgs_def)
  from 1 2 b b' show ?thesis
    unfolding v by blast
qed

text \<open>
  The claim C5 as the specification states it fails: a 404 response fails with the
  message of the validator's own table, which does not hold the text \<open>Not Found\<close> of
  the table of \<open>config.py\<close>; a 410 response and a 502 response fail with the transport's
  error, built from the reason phrase the server sent, not from that table.
\<close>

theorem secondary_table_counterexample:
  "map_of ERROR_CODES_DICT 404 = Some ''Not Found''
   \<and> connection_handler (Raw (sample_response 404 ''''))
       = (Inl (Exception (''Request Error Code: 404 - ''
                @ ''No results found. There are no results matching the query.'')), [])
   \<and> \<not> str_in ''Not Found'' (''Request Error Code: 404 - ''
                @ ''No results found. There are no results matching the query.'')
   \<and> map_of ERROR_CODES_DICT 410 = Some ''Unauthorized''
   \<and> fst (connection_handler (Raw (sample_response 410 ''Gone'')))
       = Inl (HTTPError (''410 Client Error: Gone for url: ''
                         @ ''https://data-api.ecb.europa.eu/service/data/EXR''))
   \<and> \<not> str_in ''Unauthorized'' (''410 Client Error: Gone for url: ''
                         @ ''https://data-api.ecb.europa.eu/service/data/EXR'')
   \<and> map_of ERROR_CODES_DICT 502 = Some ''Bad Gateway''
   \<and> fst (connection_handler (Raw (sample_response 502 ''Proxy Error'')))
       = Inl (HTTPError (''502 Server Error: Proxy Error for url: ''
                         @ ''https://data-api.ecb.europa.eu/service/data/EXR''))
   \<and> \<not> str_in ''Bad Gateway'' (''502 Server Error: Proxy Error for url: ''
                         @ ''https://data-api.ecb.europa.eu/service/data/EXR'')"
proof -
  have h404: "connection_handler (Raw (sample_response 404 ''''))
       = (Inl (Exception (''Request Error Code: 404 - ''
                @ ''No results found. There are no results matching the query.'')), [])"
    using handler_known [of "Raw (sample_response 404 '''')" "sample_response 404 ''''"
        "''No results found. There are no results matching the query.''"]
    by (simp add: sample_response_def errors_msgs_def str_int_samples)
  have h410: "fst (connection_handler (Raw (sample_response 410 ''Gone'')))
       = Inl (HTTPError (''410 Client Error: Gone for url: ''
                         @ ''https://data-api.ecb.europa.eu/service/data/EXR''))"
    using handler_unknown [of "Raw (sample_response 410 ''Gone'')" "sample_response 410 ''Gone''"]
    by (simp add: sample_response_def errors_msgs_def str_int_samples raise_for_status_def
        io_raise_def)
  have h502: "fst (connection_handler (Raw (sample_response 502 ''Proxy Error'')))
       = Inl (HTTPError (''502 Server Error: Proxy Error for url: ''
                         @ ''https://data-api.ecb.europa.eu/service/data/EXR''))"
    using handler_unknown [of "Raw (sample_response 502 ''Proxy Error'')"
        "sample_response 502 ''Proxy Error''"]
    by (simp add: sample_response_def errors_msgs_def str_int_samples raise_for_status_def
        io_raise_def)
  have t: "map_of ERROR_CODES_DICT 404 = Some ''Not Found''"
    "map_of ERROR_CODES_DICT 410 = Some ''Unauthorized''"
    "map_of ERROR_CODES_DICT 502 = Some ''Bad Gateway''"
    by (simp_all add: ERROR_CODES_DICT_def)
  have n: "\<not> str_in ''Not Found'' (''Request Error Code: 404 - ''
                @ ''No results found. There are no results matching the query.'')"
    "\<not> str_in ''Unauthorized'' (''410 Client Error: Gone for url: ''
                         @ ''https://data-api.ecb.europa.eu/service/data/EXR'')"
    "\<not> str_in ''Bad Gateway'' (''502 Server Error: Proxy Error for url: ''
                         @ ''https://data-api.ecb.europa.eu/service/data/EXR'')"
    by simp_all
  from h404 h410 h502 t n show ?thesis by blast
qed

section \<open>Properties of the retrieval operations\<close>

lemma keys_enumerate:
  "map (\<lambda>x. index_key (fst x)) (map (\<lambda>(i, r). (Pos i, r)) (enumerate n rs))
     = map int [n..<n + length rs]"
proof -
  have "map int [n..<n + length rs] = map int (map fst (enumerate n rs))"
    by (simp only: map_fst_enumerate)
  also have "\<dots> = map (\<lambda>x. int (fst x)) (enumerate n rs)"
    by (simp only: map_map comp_def)
  also have "\<dots> = map (\<lambda>x. index_key (fst x)) (map (\<lambda>(i, r). (Pos i, r)) (enumerate n rs))"
    by (simp only: map_map comp_def case_prod_beta fst_conv index_key.simps)
  finally show ?thesis by (rule sym)
qed

lemma sort_key_rev_strict:
  assumes "sorted (map f xs)" and "distinct (map f xs)"
  shows "sort_key f (rev xs) = xs"
proof -
  have "inj_on f (set (rev xs))"
    using assms(2) by (simp add: distinct_map)
  then have "sort_key f (rev xs) = fold (insort_key f) (rev xs) []"
    by (rule sort_key_conv_fold)
  also have "\<dots> = sort_key f xs"
    by (simp add: sort_key_def foldr_conv_fold)
  also have "\<dots> = xs"
    using assms(1) by (rule sort_key_id_if_sorted)
  finally show ?thesis .
qed

lemma sort_index_from_csv:
  "sort_index ascending (from_csv csv) =
     \<lparr>columns = fst csv, index_name = None,
      rows = (if ascending then map (\<lambda>(i, r). (Pos i, r)) (enumerate 0 (snd csv))
              else rev (map (\<lambda>(i, r). (Pos i, r)) (enumerate 0 (snd csv))))\<rparr>"
proof -
  let ?xs = "map (\<lambda>(i, r). (Pos i, r)) (enumerate 0 (snd csv))"
  have k: "map (\<lambda>x. index_key (fst x)) ?xs = map int [0..<0 + length (snd csv)]"
    by (rule keys_enumerate)
  have s: "sorted (map (\<lambda>x. index_key (fst x)) ?xs)"
    unfolding k by (simp add: sorted_map)
  have d: "distinct (map (\<lambda>x. index_key (fst x)) ?xs)"
    unfolding k by (simp add: distinct_map)
  show ?thesis
    by (simp add: sort_index_def from_csv_def sort_key_id_if_sorted [OF s]
        sort_key_rev_strict [OF s d])
qed

lemma get_ecb_data_validated:
  assumes "build_url (api_endpoint self) key p = Inr u"
    and "requests_get w u [] = Inr cr"
    and "connection_handler (Raw cr) = (Inr (), lg)"
    and "read_csv w (body cr) = Inr csv"
    and "''TIME_PERIOD'' \<notin> set (fst csv)"
  shows "get_ecb_data w self (Some key) p ascending =
           (Inr (Some (sort_index ascending (from_csv csv))), HttpGet u [] # lg)"
  using assms
  by (simp add: get_ecb_data_def io_bind_def lift_def io_emit_def external_def io_return_def
      from_csv_def)




lemma connection_handler_no_request:
  "filter is_request (snd (connection_handler response)) = []"
  by (auto simp: connection_handler_def connector_response_def io_bind_def io_emit_def
      io_raise_def io_return_def external_def raise_for_status_def is_request_def
      split: response.splits sum.splits option.splits)

text \<open>
  C4 (as the code has it). For a fetched table without a \<open>TIME_PERIOD\<close> column,
  \<open>get_ecb_data\<close> renames no column, parses no dates and sets no time index, but it
  still sorts by the positional index of the parsed CSV: the row order is kept when
  \<open>ascending\<close> is true and reversed when it is false.
\<close>

theorem get_ecb_data_no_time_period:
  assumes "build_url (api_endpoint self) key p = Inr u"
    and "requests_get w u [] = Inr cr"
    and "connection_handler (Raw cr) = (Inr (), lg)"
    and "read_csv w (body cr) = Inr csv"
    and "''TIME_PERIOD'' \<notin> set (fst csv)"
  shows "get_ecb_data w self (Some key) p ascending =
           (Inr (Some \<lparr>columns = fst csv, index_name = None,
                       rows = (if ascending
                               then map (\<lambda>(i, r). (Pos i, r)) (enumerate 0 (snd csv))
                               else rev (map (\<lambda>(i, r). (Pos i, r)) (enumerate 0 (snd csv))))\<rparr>),
            HttpGet u [] # lg)"
  unfolding get_ecb_data_validated [OF assms] sort_index_from_csv ..

lemma sample_url:
  "build_url (api_endpoint sample_instance) ''EXR..USD.EUR.SP00.A''
     (no_params\<lparr>detail := PStr ''serieskeysonly''\<rparr>)
   = Inr (''https://sdw-wsrest.ecb.europa.eu/service/data/EXR/.USD.EUR.SP00.A''
          @ ''?format=csvdata&detail=serieskeysonly'')"
  by (simp add: build_url_def split_first_def add_param_def no_params_def sample_instance_def)

theorem get_ecb_data_no_time_period_witness:
  "''TIME_PERIOD'' \<notin> set (fst keys_only_csv)
   \<and> get_ecb_data (sample_world (sample_response 200 ''OK'') keys_only_csv) sample_instance
        (Some ''EXR..USD.EUR.SP00.A'') (no_params\<lparr>detail := PStr ''serieskeysonly''\<rparr>) True
       = (Inr (Some \<lparr>columns = [''KEY''], index_name = None,
                     rows = [(Pos 0, [''EXR.D.USD.EUR.SP00.A'']),
                             (Pos 1, [''EXR.M.USD.EUR.SP00.A''])]\<rparr>),
          [HttpGet (''https://sdw-wsrest.ecb.europa.eu/service/data/EXR/.USD.EUR.SP00.A''
                    @ ''?format=csvdata&detail=serieskeysonly'') [],
           Log INFO (''Connection established with url: ''
                     @ ''https://data-api.ecb.europa.eu/service/data/EXR''
                     @ '' and headers: {}'')])"
proof -
  let ?w = "sample_world (sample_response 200 ''OK'') keys_only_csv"
  have g: "requests_get ?w (''https://sdw-wsrest.ecb.europa.eu/service/data/EXR/.USD.EUR.SP00.A''
          @ ''?format=csvdata&detail=serieskeysonly'') [] = Inr (sample_response 200 ''OK'')"
    by (simp add: sample_world_def)
  have h: "connection_handler (Raw (sample_response 200 ''OK'')) =
      (Inr (), [Log INFO (''Connection established with url: ''
                     @ ''https://data-api.ecb.europa.eu/service/data/EXR''
                     @ '' and headers: {}'')])"
    using handler_ok [of "Raw (sample_response 200 ''OK'')" "sample_response 200 ''OK''"]
    by (simp add: sample_response_def)
  have c: "read_csv ?w (body (sample_response 200 ''OK'')) = Inr keys_only_csv"
    by (simp add: sample_world_def)
  have t: "''TIME_PERIOD'' \<notin> set (fst keys_only_csv)"
    by (simp add: keys_only_csv_def)
  show ?thesis
    using get_ecb_data_no_time_period [OF sample_url g h c t, of True] t
    by (simp add: keys_only_csv_def)
qed

text \<open>
  The claim C4 as the specification states it fails: with \<open>ascending=False\<close> the rows of
  a table without time column come back in the reverse of their order in the CSV.
\<close>

theorem get_ecb_data_no_time_period_counterexample:
  "read_csv (sample_world (sample_response 200 ''OK'') keys_only_csv)
       (body (sample_response 200 ''OK''))
     = Inr ([''KEY''], [[''EXR.D.USD.EUR.SP00.A''], [''EXR.M.USD.EUR.SP00.A'']])
   \<and> fst (get_ecb_data (sample_world (sample_response 200 ''OK'') keys_only_csv) sample_instance
        (Some ''EXR..USD.EUR.SP00.A'') (no_params\<lparr>detail := PStr ''serieskeysonly''\<rparr>) False)
       = Inr (Some \<lparr>columns = [''KEY''], index_name = None,
                    rows = [(Pos 1, [''EXR.M.USD.EUR.SP00.A'']),
                            (Pos 0, [''EXR.D.USD.EUR.SP00.A''])]\<rparr>)"
proof -
  let ?w = "sample_world (sample_response 200 ''OK'') keys_only_csv"
  have g: "requests_get ?w (''https://sdw-wsrest.ecb.europa.eu/service/data/EXR/.USD.EUR.SP00.A''
          @ ''?format=csvdata&detail=serieskeysonly'') [] = Inr (sample_response 200 ''OK'')"
    by (simp add: sample_world_def)
  have h: "connection_handler (Raw (sample_response 200 ''OK'')) =
      (Inr (), [Log INFO (''Connection established with url: ''
                     @ ''https://data-api.ecb.europa.eu/service/data/EXR''
                     @ '' and headers: {}'')])"
    using handler_ok [of "Raw (sample_response 200 ''OK'')" "sample_response 200 ''OK''"]
    by (simp add: sample_response_def)
  have c: "read_csv ?w (body (sample_response 200 ''OK'')) = Inr keys_only_csv"
    by (simp add: sample_world_def)
  have t: "''TIME_PERIOD'' \<notin> set (fst keys_only_csv)"
    by (simp add: keys_only_csv_def)
  show ?thesis
    using get_ecb_data_validated [OF sample_url g h c t, of False] c
    by (simp add: keys_only_csv_def sort_index_def from_csv_def)
qed



text \<open>
  C7 (as the code has it). For a dataflow identifier that is not in the cached listing,
  \<open>all_data_keys_for_dataflow\<close> logs one error entry, sends no request, raises nothing
  and returns \<open>None\<close>. It is not the only silent path: \<open>get_ecb_data\<close> with
  \<open>series_key\<close> \<open>None\<close> returns \<open>None\<close> as well, without raising and without logging.
\<close>

theorem all_data_keys_absent_silent:
  assumes "dataflow_id \<notin> set (map fst (all_dataflows self))"
  shows "all_data_keys_for_dataflow w self dataflow_id =
           (Inr None, [Log ERROR (''Provided dataflow: '' @ dataflow_id
                                  @ '' is not existing'')])
       \<and> get_ecb_data w self None p ascending = (Inr None, [])"
  using assms
  by (simp add: all_data_keys_for_dataflow_def get_ecb_data_def io_bind_def io_emit_def
      io_return_def)

theorem all_data_keys_absent_silent_witness:
  "''XYZ'' \<notin> set (map fst (all_dataflows sample_instance))
   \<and> all_data_keys_for_dataflow (sample_world (sample_response 200 ''OK'') keys_only_csv)
        sample_instance ''XYZ'' =
       (Inr None, [Log ERROR ''Provided dataflow: XYZ is not existing''])"
proof -
  have a: "''XYZ'' \<notin> set (map fst (all_dataflows sample_instance))"
    by (simp add: sample_instance_def)
  show ?thesis
    using all_data_keys_absent_silent [OF a,
        of "sample_world (sample_response 200 ''OK'') keys_only_csv" no_params True] a
    by simp
qed

text \<open>
  The part of C7 that makes the absent dataflow the only silent failure does not hold:
  a fetch without a series key returns \<open>None\<close>, raises nothing and logs nothing.
\<close>

theorem only_silent_failure_counterexample:
  "get_ecb_data (sample_world (sample_response 200 ''OK'') keys_only_csv) sample_instance
     None no_params True = (Inr None, [])"
  by (simp add: get_ecb_data_def io_return_def)

text \<open>
  C9. For a dataflow identifier in the cached listing, \<open>all_data_keys_for_dataflow\<close>
  sends exactly one request, to \<open>https://data-api.ecb.europa.eu/service/data/\<close>
  followed by the identifier, and its outcome does not depend on the configured
  \<open>api_endpoint\<close>; \<open>get_ecb_data\<close> depends on the instance only through the URL that
  \<open>_build_url\<close> makes from \<open>api_endpoint\<close>.
\<close>

theorem all_data_keys_fixed_host:
  assumes "dataflow_id \<in> set (map fst (all_dataflows self))"
  shows "filter is_request (snd (all_data_keys_for_dataflow w self dataflow_id)) =
           [HttpGet (''https://data-api.ecb.europa.eu/service/data/'' @ dataflow_id)
              [(''Accept'', ''text/csv'')]]
       \<and> all_data_keys_for_dataflow w (self\<lparr>api_endpoint := ep\<rparr>) dataflow_id =
           all_data_keys_for_dataflow w self dataflow_id
       \<and> (build_url (api_endpoint self') key p = build_url (api_endpoint self) key p \<longrightarrow>
            get_ecb_data w self' (Some key) p ascending =
            get_ecb_data w self (Some key) p ascending)"
proof -
  let ?u = "''https://data-api.ecb.europa.eu/service/data/'' @ dataflow_id"
  let ?h = "[(''Accept'', ''text/csv'')]"
  have 1: "filter is_request (snd (all_data_keys_for_dataflow w self dataflow_id)) =
      [HttpGet ?u ?h]"
  proof (cases "requests_get w ?u ?h")
    case (Inl m)
    with assms show ?thesis
      by (simp add: all_data_keys_for_dataflow_def io_bind_def io_emit_def external_def
          io_raise_def is_request_def)
  next
    case (Inr cr)
    obtain r lg where c: "connection_handler (Raw cr) = (r, lg)"
      by (cases "connection_handler (Raw cr)")
    have lg: "filter is_request lg = []"
      using connection_handler_no_request [of "Raw cr"] c by simp
    from assms Inr c lg show ?thesis
      by (auto simp: all_data_keys_for_dataflow_def io_bind_def io_emit_def external_def
          io_raise_def io_return_def is_request_def split: sum.splits)
  qed
  have 2: "all_data_keys_for_dataflow w (self\<lparr>api_endpoint := ep\<rparr>) dataflow_id =
           all_data_keys_for_dataflow w self dataflow_id"
    by (simp add: all_data_keys_for_dataflow_def)
  have 3: "build_url (api_endpoint self') key p = build_url (api_endpoint self) key p \<longrightarrow>
            get_ecb_data w self' (Some key) p ascending =
            get_ecb_data w self (Some key) p ascending"
    by (simp add: get_ecb_data_def)
  from 1 2 3 show ?thesis by blast
qed

theorem all_data_keys_fixed_host_witness:
  "''EXR'' \<in> set (map fst (all_dataflows sample_instance))
   \<and> snd (all_data_keys_for_dataflow (sample_world (sample_response 200 ''OK'') keys_only_csv)
        (sample_instance\<lparr>api_endpoint := ''https://example.org''\<rparr>) ''EXR'') =
       [HttpGet ''https://data-api.ecb.europa.eu/service/data/EXR'' [(''Accept'', ''text/csv'')],
        Log INFO (''Connection established with url: ''
                  @ ''https://data-api.ecb.europa.eu/service/data/EXR''
                  @ '' and headers: {}'')]
   \<and> get_ecb_data (sample_world (sample_response 200 ''OK'') keys_only_csv)
        (sample_instance\<lparr>verify := Some False\<rparr>) (Some ''EXR.D.USD.EUR.SP00.A'') no_params True =
       get_ecb_data (sample_world (sample_response 200 ''OK'') keys_only_csv)
        sample_instance (Some ''EXR.D.USD.EUR.SP00.A'') no_params True"
proof -
  let ?w = "sample_world (sample_response 200 ''OK'') keys_only_csv"
  have a: "''EXR'' \<in> set (map fst (all_dataflows sample_instance))"
    by (simp add: sample_instance_def)
  have e: "snd (all_data_keys_for_dataflow ?w sample_instance ''EXR'') =
       [HttpGet ''https://data-api.ecb.europa.eu/service/data/EXR'' [(''Accept'', ''text/csv'')],
        Log INFO (''Connection established with url: ''
                  @ ''https://data-api.ecb.europa.eu/service/data/EXR''
                  @ '' and headers: {}'')]"
    by (simp add: all_data_keys_for_dataflow_def sample_instance_def sample_world_def
        sample_response_def connection_handler_def connector_response_def io_bind_def
        io_emit_def io_return_def external_def)
  have u: "build_url (api_endpoint (sample_instance\<lparr>verify := Some False\<rparr>))
             ''EXR.D.USD.EUR.SP00.A'' no_params
           = build_url (api_endpoint sample_instance) ''EXR.D.USD.EUR.SP00.A'' no_params"
    by simp
  note T = all_data_keys_fixed_host [OF a, of ?w "''https://example.org''"
          "sample_instance\<lparr>verify := Some False\<rparr>" "''EXR.D.USD.EUR.SP00.A''" no_params True]
  from T e have 1: "snd (all_data_keys_for_dataflow ?w
        (sample_instance\<lparr>api_endpoint := ''https://example.org''\<rparr>) ''EXR'') =
       [HttpGet ''https://data-api.ecb.europa.eu/service/data/EXR'' [(''Accept'', ''text/csv'')],
        Log INFO (''Connection established with url: ''
                  @ ''https://data-api.ecb.europa.eu/service/data/EXR''
                  @ '' and headers: {}'')]"
    by simp
  from T u have 2: "get_ecb_data ?w (sample_instance\<lparr>verify := Some False\<rparr>)
        (Some ''EXR.D.USD.EUR.SP00.A'') no_params True =
       get_ecb_data ?w sample_instance (Some ''EXR.D.USD.EUR.SP00.A'') no_params True"
    by blast
  from a 1 2 show ?thesis by blast
qed

section \<open>Properties of the discovery operations\<close>

lemma str_in_sublist: "str_in k s \<longleftrightarrow> sublist k s"
  by (induction s) (auto simp: sublist_Cons_right)

text \<open>
  What the keyword filter computes on a table with a \<open>TITLE_COMPL\<close> column: the rows
  whose lowered title holds the keyword as it was given, renumbered.
\<close>

lemma search_data_keys_rows:
  assumes "''TITLE_COMPL'' \<in> set (columns df)"
  shows "search_data_keys_for_dataflow key_word df =
           Inr (reset_index
             (df\<lparr>rows := filter (\<lambda>x. str_in key_word
                      (lower (cell_at (snd x) (index_of ''TITLE_COMPL'' (columns df)))))
                    (rows df)\<rparr>))"
proof -
  let ?t = "\<lambda>x. cell_at (snd x) (index_of ''TITLE_COMPL'' (columns df))"
  let ?titles = "map ?t (rows df)"
  have c: "column ''TITLE_COMPL'' df = Some ?titles"
    using assms by (simp add: column_def)
  have "lower (?t x) \<in> set (filter (\<lambda>title_c. str_in key_word title_c)
                               (map lower (unique ?titles)))
        \<longleftrightarrow> str_in key_word (lower (?t x))" if "x \<in> set (rows df)" for x
    using that by (auto simp: unique_def)
  then have "filter (\<lambda>x. lower (?t x) \<in> set (filter (\<lambda>title_c. str_in key_word title_c)
                               (map lower (unique ?titles)))) (rows df)
           = filter (\<lambda>x. str_in key_word (lower (?t x))) (rows df)"
    by (intro filter_cong) auto
  then show ?thesis
    by (simp add: search_data_keys_for_dataflow_def c Let_def)
qed

text \<open>
  C6 at the failing input. The keyword \<open>Euribor\<close> matches the title
  \<open>Euribor 1-year rate\<close> without regard to case, but the code compares the keyword as
  given with the lowered titles and returns no row. With the lowered keyword the row is
  found.
\<close>

theorem search_data_keys_keyword_case:
  "str_in (lower ''Euribor'') (lower ''Euribor 1-year rate'')
   \<and> search_data_keys_for_dataflow ''Euribor'' sample_keys =
       Inr \<lparr>columns = [''KEY'', ''TITLE_COMPL''], index_name = None, rows = []\<rparr>
   \<and> search_data_keys_for_dataflow ''euribor'' sample_keys =
       Inr \<lparr>columns = [''KEY'', ''TITLE_COMPL''], index_name = None,
            rows = [(Pos 0, [''FM.M.U2.EUR.RT.MM.EURIBOR1YD_.HSTA'',
                             ''Euribor 1-year rate''])]\<rparr>"
  by code_simp

text \<open>
  C8. When the dimensions of a dataflow can be listed,
  \<open>search_dataflow_dimension_values\<close> raises the \<open>ValueError\<close> naming the dimension and
  the dataflow exactly when the requested name is not in that list; for a listed name
  it returns what the enumerated values of that component give. So for each listed
  name it raises no \<open>ValueError\<close> at all.
\<close>

theorem dimension_values_unresolved_iff:
  assumes "search_dataflow_dimensions w dataflow_id = Inr dims"
  shows "(search_dataflow_dimension_values w dataflow_id dimension =
            Inl (ValueError (''Dimension '' @ [CHR 0x27] @ dimension @ [CHR 0x27]
                             @ '' not found in dataflow: '' @ dataflow_id))
          \<longleftrightarrow> dimension \<notin> set dims)
       \<and> (dimension \<in> set dims \<longrightarrow>
            (\<exists>dsd d. dataflow_structure w dataflow_id = Inr dsd
               \<and> find (\<lambda>d. dim_id d = dimension) (dimensions dsd) = Some d
               \<and> search_dataflow_dimension_values w dataflow_id dimension =
                   (case to_pandas_codelist w (enumerated d) of
                      Inl m \<Rightarrow> Inl (LibraryError m)
                    | Inr values_series \<Rightarrow> Inr values_series)))
       \<and> (\<forall>d \<in> set dims. \<forall>m.
            search_dataflow_dimension_values w dataflow_id d \<noteq> Inl (ValueError m))"
proof -
  from assms obtain dsd where s: "dataflow_structure w dataflow_id = Inr dsd"
    and dims: "dims = map dim_id (dimensions dsd)"
    by (auto simp: search_dataflow_dimensions_def split: sum.splits)
  have absent: "search_dataflow_dimension_values w dataflow_id x =
            Inl (ValueError (''Dimension '' @ [CHR 0x27] @ x @ [CHR 0x27]
                             @ '' not found in dataflow: '' @ dataflow_id))"
    if "x \<notin> set dims" for x
    using that by (simp add: search_dataflow_dimension_values_def s dims)
  have present: "\<exists>d. find (\<lambda>d. dim_id d = x) (dimensions dsd) = Some d
               \<and> search_dataflow_dimension_values w dataflow_id x =
                   (case to_pandas_codelist w (enumerated d) of
                      Inl m \<Rightarrow> Inl (LibraryError m)
                    | Inr values_series \<Rightarrow> Inr values_series)"
    if "x \<in> set dims" for x
  proof -
    from that obtain d where f: "find (\<lambda>d. dim_id d = x) (dimensions dsd) = Some d"
      by (cases "find (\<lambda>d. dim_id d = x) (dimensions dsd)")
        (auto simp: dims find_None_iff)
    with that show ?thesis
      by (simp add: search_dataflow_dimension_values_def s dims [symmetric])
  qed
  have no_value_error: "search_dataflow_dimension_values w dataflow_id x \<noteq> Inl (ValueError m)"
    if "x \<in> set dims" for x m
  proof -
    from present [OF that] obtain d :: dimension_component where
      e: "search_dataflow_dimension_values w dataflow_id x =
            (case to_pandas_codelist w (enumerated d) of
               Inl m \<Rightarrow> Inl (LibraryError m)
             | Inr values_series \<Rightarrow> Inr values_series)"
      by blast
    show ?thesis
      unfolding e by (cases "to_pandas_codelist w (enumerated d)") simp_all
  qed
  show ?thesis
    using absent present no_value_error s by blast
qed

theorem dimension_values_unresolved_iff_witness:
  "search_dataflow_dimensions (sample_world (sample_response 200 ''OK'') keys_only_csv) ''EXR''
     = Inr [''FREQ'', ''TIME_PERIOD'']
   \<and> search_dataflow_dimension_values (sample_world (sample_response 200 ''OK'') keys_only_csv)
       ''EXR'' ''CURRENCY''
     = Inl (ValueError ''Dimension 'CURRENCY' not found in dataflow: EXR'')
   \<and> search_dataflow_dimension_values (sample_world (sample_response 200 ''OK'') keys_only_csv)
       ''EXR'' ''FREQ''
     = Inr [(''A'', ''Annual''), (''M'', ''Monthly'')]
   \<and> search_dataflow_dimension_values (sample_world (sample_response 200 ''OK'') keys_only_csv)
       ''EXR'' ''TIME_PERIOD''
     = Inl (LibraryError ''no code list'')"
proof -
  let ?w = "sample_world (sample_response 200 ''OK'') keys_only_csv"
  have l: "search_dataflow_dimensions ?w ''EXR'' = Inr [''FREQ'', ''TIME_PERIOD'']"
    by (simp add: search_dataflow_dimensions_def dataflow_structure_def sample_world_def
        sample_message_def)
  have s: "dataflow_structure ?w ''EXR'' =
      Inr \<lparr>dimensions =
                [\<lparr>dim_id = ''FREQ'',
                   enumerated = Some [(''A'', ''Annual''), (''M'', ''Monthly'')]\<rparr>,
                 \<lparr>dim_id = ''TIME_PERIOD'', enumerated = None\<rparr>],
              attributes = [''TITLE_COMPL''],
              measures = [''OBS_VALUE'']\<rparr>"
    by (simp add: dataflow_structure_def sample_world_def sample_message_def)
  have p: "to_pandas_codelist ?w c = (case c of None \<Rightarrow> Inl ''no code list'' | Some l \<Rightarrow> Inr l)"
    for c
    by (simp add: sample_world_def)
  have 1: "search_dataflow_dimension_values ?w ''EXR'' ''CURRENCY''
     = Inl (ValueError ''Dimension 'CURRENCY' not found in dataflow: EXR'')"
    using dimension_values_unresolved_iff [OF l, of "''CURRENCY''"] by simp
  have 2: "search_dataflow_dimension_values ?w ''EXR'' ''FREQ''
     = Inr [(''A'', ''Annual''), (''M'', ''Monthly'')]"
    using dimension_values_unresolved_iff [OF l, of "''FREQ''"]
    by (simp add: s p)
  have 3: "search_dataflow_dimension_values ?w ''EXR'' ''TIME_PERIOD''
     = Inl (LibraryError ''no code list'')"
    using dimension_values_unresolved_iff [OF l, of "''TIME_PERIOD''"]
    by (simp add: s p)
  from l 1 2 3 show ?thesis by blast
qed

end
